theory Spec2Isabelle
  imports Complex_Main "HOL-Library.AList" "HOL-Library.Product_Lexorder" "HOL-Library.Multiset"
    "HOL-Library.Char_ord" "HOL-Library.List_Lexorder"
begin

section \<open>Data model\<close>

text \<open>
  The program is \<^verbatim>\<open>src/data_treatment.py\<close>: a pandas pipeline over a table of
  transactions. A DataFrame is modelled as its column names and its rows in order; a
  row is an association list from column name to cell. A cell is what a pandas column of
  dtype object holds: a Python string, a float, the missing marker (NaN, NaT and None
  are all the one constructor \<open>NaN\<close>) or, once \<^verbatim>\<open>pd.to_datetime\<close> has run, an
  instant (nanoseconds since the epoch).

  Scope of the model, stated once:
  \<^item> floats are exact rationals, so a median of an even sample is the exact midpoint;
  \<^item> a string is a list of characters and its length is the number of them;
  \<^item> the dtype of a column is the one \<^verbatim>\<open>pd.read_csv\<close> infers from its cells: a column
    with no rows or with a string in it holds objects, a column of numbers, instants and
    missing values only is numeric. On a column of objects \<^verbatim>\<open>.str\<close> answers NaN at a
    cell that is not a string; on a numeric column it raises AttributeError;
  \<^item> what the pandas library computes from one value (parsing a string as a number,
    printing a float, reading an instant, rounding to two decimals) and the sample
    standard deviation, which is not rational, are parameters: the record \<open>pandas\<close>;
  \<^item> \<^verbatim>\<open>print\<close> is left out, except where evaluating its argument can raise.
\<close>

datatype cell = Str string | Num rat | NaN | Ts int

type_synonym row = "(string \<times> cell) list"

record table =
  columns :: "string list"
  rows :: "row list"

datatype error =
  FileNotFoundError | KeyError | TypeError | AttributeError | ZeroDivisionError | OtherError

record pandas =
  numeric_of_str :: "string \<Rightarrow> rat option"
  str_of_num :: "rat \<Rightarrow> string"
  str_of_ts :: "int \<Rightarrow> string"
  datetime_of_num :: "rat \<Rightarrow> int option"
  datetime_of_str :: "string \<Rightarrow> int option"
  round2 :: "rat \<Rightarrow> rat"
  std_of :: "rat list \<Rightarrow> rat option"

definition get_cell :: "row \<Rightarrow> string \<Rightarrow> cell" where
  "get_cell r c = (case map_of r c of None \<Rightarrow> NaN | Some v \<Rightarrow> v)"

definition set_cell :: "string \<Rightarrow> cell \<Rightarrow> row \<Rightarrow> row" where
  "set_cell c v r = AList.update c v r"

definition has_column :: "table \<Rightarrow> string \<Rightarrow> bool" where
  "has_column t c = (c \<in> set (columns t))"

text \<open>\<^verbatim>\<open>df[c] = f(df[c])\<close>: a whole column rewritten cell by cell.\<close>

definition map_column :: "string \<Rightarrow> (cell \<Rightarrow> cell) \<Rightarrow> table \<Rightarrow> table" where
  "map_column c f t = t\<lparr>rows := map (\<lambda>r. set_cell c (f (get_cell r c)) r) (rows t)\<rparr>"

text \<open>\<^verbatim>\<open>df.loc[mask, c] = v\<close>: the cell of column \<open>c\<close> rewritten in the rows of the mask.\<close>

definition loc_assign :: "(row \<Rightarrow> bool) \<Rightarrow> string \<Rightarrow> cell \<Rightarrow> table \<Rightarrow> table" where
  "loc_assign m c v t = t\<lparr>rows := map (\<lambda>r. if m r then set_cell c v r else r) (rows t)\<rparr>"

text \<open>\<^verbatim>\<open>df[mask]\<close>: the rows of the mask, in order.\<close>

definition select_rows :: "(row \<Rightarrow> bool) \<Rightarrow> table \<Rightarrow> table" where
  "select_rows m t = t\<lparr>rows := filter m (rows t)\<rparr>"

text \<open>\<^verbatim>\<open>mask.sum()\<close>: how many rows the mask holds on.\<close>

definition mask_sum :: "(row \<Rightarrow> bool) \<Rightarrow> table \<Rightarrow> nat" where
  "mask_sum m t = length (filter m (rows t))"

section \<open>Cell conversions of pandas\<close>

text \<open>
  \<^verbatim>\<open>pd.to_numeric(s, errors='coerce')\<close>: a string that does not parse becomes NaN, a
  number stays, an instant is read as its integer.
\<close>

definition to_numeric :: "pandas \<Rightarrow> cell \<Rightarrow> cell" where
  "to_numeric P c =
     (case c of
        Str s \<Rightarrow> (case numeric_of_str P s of None \<Rightarrow> NaN | Some x \<Rightarrow> Num x)
      | Num x \<Rightarrow> Num x
      | NaN \<Rightarrow> NaN
      | Ts n \<Rightarrow> Num (of_int n))"

text \<open>\<^verbatim>\<open>s.astype(str)\<close>: the missing marker prints as \<^verbatim>\<open>nan\<close>.\<close>

definition astype_str :: "pandas \<Rightarrow> cell \<Rightarrow> string" where
  "astype_str P c =
     (case c of
        Str s \<Rightarrow> s
      | Num x \<Rightarrow> str_of_num P x
      | NaN \<Rightarrow> ''nan''
      | Ts n \<Rightarrow> str_of_ts P n)"

text \<open>
  \<^verbatim>\<open>pd.to_datetime(s, unit='s', errors='coerce')\<close>: a column that already holds
  instants is returned as it is; a value that cannot be read becomes NaT.
\<close>

definition to_datetime :: "pandas \<Rightarrow> cell \<Rightarrow> cell" where
  "to_datetime P c =
     (case c of
        Str s \<Rightarrow> (case datetime_of_str P s of None \<Rightarrow> NaN | Some n \<Rightarrow> Ts n)
      | Num x \<Rightarrow> (case datetime_of_num P x of None \<Rightarrow> NaN | Some n \<Rightarrow> Ts n)
      | NaN \<Rightarrow> NaN
      | Ts n \<Rightarrow> Ts n)"

text \<open>\<^verbatim>\<open>s.str.len()\<close> and \<^verbatim>\<open>s.str.startswith(p)\<close>: NaN (here \<open>None\<close>) off strings.\<close>

definition str_len :: "cell \<Rightarrow> nat option" where
  "str_len c = (case c of Str s \<Rightarrow> Some (length s) | _ \<Rightarrow> None)"

definition str_startswith :: "string \<Rightarrow> cell \<Rightarrow> bool option" where
  "str_startswith p c = (case c of Str s \<Rightarrow> Some (take (length p) s = p) | _ \<Rightarrow> None)"

text \<open>
  Whether \<^verbatim>\<open>df[c].str\<close> exists: pandas refuses the accessor with AttributeError
  (\<^verbatim>\<open>Can only use .str accessor with string values\<close>) on a column that is not of
  dtype object, which is what \<^verbatim>\<open>pd.read_csv\<close> gives for a column whose cells are all
  blank or all numbers.
\<close>

definition is_str :: "cell \<Rightarrow> bool" where
  "is_str c = (case c of Str s \<Rightarrow> True | _ \<Rightarrow> False)"

definition str_accessor :: "string \<Rightarrow> table \<Rightarrow> bool" where
  "str_accessor c t = (rows t = [] \<or> list_ex (\<lambda>r. is_str (get_cell r c)) (rows t))"

text \<open>\<^verbatim>\<open>s.str.lower()\<close> on the letters A to Z.\<close>

definition lower_char :: "char \<Rightarrow> char" where
  "lower_char c =
     (case map_of (zip ''ABCDEFGHIJKLMNOPQRSTUVWXYZ'' ''abcdefghijklmnopqrstuvwxyz'') c of
        None \<Rightarrow> c
      | Some d \<Rightarrow> d)"

definition str_lower :: "string \<Rightarrow> string" where
  "str_lower s = map lower_char s"

text \<open>\<^verbatim>\<open>s.isin(values)\<close> for a list of strings: only a string cell can be in it.\<close>

definition isin :: "string list \<Rightarrow> cell \<Rightarrow> bool" where
  "isin vs c = (case c of Str s \<Rightarrow> s \<in> set vs | _ \<Rightarrow> False)"

text \<open>\<^verbatim>\<open>s.isna()\<close>.\<close>

definition isna :: "cell \<Rightarrow> bool" where
  "isna c = (c = NaN)"

section \<open>Cleaning stage 1: addresses (lines 140 to 151)\<close>

definition address_mask :: "row \<Rightarrow> bool" where
  "address_mask r =
     (str_len (get_cell r ''sending_address'') = Some 42 \<and>
      str_len (get_cell r ''receiving_address'') = Some 42 \<and>
      str_startswith ''0x'' (get_cell r ''sending_address'') = Some True \<and>
      str_startswith ''0x'' (get_cell r ''receiving_address'') = Some True)"

text \<open>
  Line 143 opens \<^verbatim>\<open>.str\<close> on both address columns before anything else, so the stage
  raises AttributeError when one of them is not a column of strings.
\<close>

definition address_stage :: "table \<Rightarrow> error + table" where
  "address_stage t =
     (if has_column t ''sending_address'' \<and> has_column t ''receiving_address'' then
        (if str_accessor ''sending_address'' t \<and> str_accessor ''receiving_address'' t then
           (let invalid_addresses = mask_sum (\<lambda>r. \<not> address_mask r) t
            in if invalid_addresses > 0 then Inr (select_rows address_mask t) else Inr t)
         else Inl AttributeError)
      else Inr t)"

section \<open>Cleaning stage 2: ip_prefix (lines 153 to 162)\<close>

definition invalid_ips :: "row \<Rightarrow> bool" where
  "invalid_ips r = isin [''0.0'', ''0'', ''nan'', ''NaN'', ''None'', ''none''] (get_cell r ''ip_prefix'')"

definition ip_stage :: "pandas \<Rightarrow> table \<Rightarrow> table" where
  "ip_stage P t =
     (if has_column t ''ip_prefix'' then
        (let t1 = map_column ''ip_prefix'' (\<lambda>c. Str (astype_str P c)) t;
             invalid_ip_count = mask_sum invalid_ips t1
         in if invalid_ip_count > 0
            then loc_assign invalid_ips ''ip_prefix'' (Str ''INVALID_IP'') t1
            else t1)
      else t)"

section \<open>Medians and the imputation shared by stages 3 and 4\<close>

definition column_values :: "string \<Rightarrow> table \<Rightarrow> cell list" where
  "column_values c t = map (\<lambda>r. get_cell r c) (rows t)"

definition numbers_of :: "cell list \<Rightarrow> rat list" where
  "numbers_of cs = concat (map (\<lambda>c. case c of Num x \<Rightarrow> [x] | _ \<Rightarrow> []) cs)"

text \<open>
  \<^verbatim>\<open>Series.median()\<close>: missing entries are skipped; the middle value of an odd
  sample, the mean of the two middle values of an even one, NaN when nothing is left.
\<close>

definition median :: "cell list \<Rightarrow> cell" where
  "median cs =
     (let xs = sort (numbers_of cs); n = length xs
      in if n = 0 then NaN
         else if odd n then Num (xs ! (n div 2))
         else Num ((xs ! (n div 2 - 1) + xs ! (n div 2)) / 2))"

text \<open>
  \<^verbatim>\<open>df.groupby('location_region')[c].median()\<close>: one entry per region that is not
  missing (groupby drops the missing key), KeyError when the table has no such column.
  pandas orders the entries by key; the model keeps an order of appearance, which no
  result depends on, since the loop below writes disjoint rows from medians computed
  beforehand.
\<close>

definition group_keys :: "table \<Rightarrow> cell list" where
  "group_keys t = remdups (filter (\<lambda>k. \<not> isna k) (column_values ''location_region'' t))"

definition region_rows :: "cell \<Rightarrow> table \<Rightarrow> table" where
  "region_rows k t = select_rows (\<lambda>r. get_cell r ''location_region'' = k) t"

definition groupby_median :: "string \<Rightarrow> table \<Rightarrow> error + (cell \<times> cell) list" where
  "groupby_median c t =
     (if has_column t ''location_region''
      then Inr (map (\<lambda>k. (k, median (column_values c (region_rows k t)))) (group_keys t))
      else Inl KeyError)"

text \<open>The body of the loop over \<^verbatim>\<open>medianas_por_regiao.items()\<close> (lines 185 to 193).\<close>

definition fill_region :: "string \<Rightarrow> cell \<times> cell \<Rightarrow> table \<Rightarrow> table" where
  "fill_region c km t =
     (let m = (\<lambda>r. get_cell r ''location_region'' = fst km \<and> isna (get_cell r c));
          count_regiao = mask_sum m t
      in if count_regiao > 0 then loc_assign m c (snd km) t else t)"

text \<open>The global fallback (lines 198 to 202); \<^verbatim>\<open>fillna\<close> writes the missing cells only.\<close>

definition fill_global :: "string \<Rightarrow> table \<Rightarrow> table" where
  "fill_global c t =
     (let remaining_missing = mask_sum (\<lambda>r. isna (get_cell r c)) t
      in if remaining_missing > 0
         then (let mediana_global = median (column_values c t)
               in loc_assign (\<lambda>r. isna (get_cell r c)) c mediana_global t)
         else t)"

text \<open>
  Lines 178 to 202 for risk_score and lines 214 to 238 for amount are the same text up
  to the column name, so they are one definition with the column as its argument.
\<close>

definition impute_by_region :: "string \<Rightarrow> table \<Rightarrow> error + table" where
  "impute_by_region c t =
     (case groupby_median c t of
        Inl e \<Rightarrow> Inl e
      | Inr medianas_por_regiao \<Rightarrow> Inr (fill_global c (fold (fill_region c) medianas_por_regiao t)))"

section \<open>Cleaning stage 3: risk_score (lines 164 to 202)\<close>

definition risk_score_missing :: "row \<Rightarrow> bool" where
  "risk_score_missing r = isin [''none'', ''None'', ''NULL'', ''null'', []] (get_cell r ''risk_score'')"

definition risk_score_stage :: "pandas \<Rightarrow> table \<Rightarrow> error + table" where
  "risk_score_stage P t =
     (if has_column t ''risk_score'' then
        (let missing_count = mask_sum risk_score_missing t;
             t1 = map_column ''risk_score'' (to_numeric P) t
         in if missing_count > 0 then impute_by_region ''risk_score'' t1 else Inr t1)
      else Inr t)"

section \<open>Cleaning stage 4: amount (lines 204 to 240)\<close>

definition amount_stage :: "pandas \<Rightarrow> table \<Rightarrow> error + table" where
  "amount_stage P t =
     (if has_column t ''amount'' then
        (let t1 = map_column ''amount'' (to_numeric P) t;
             amount_missing = mask_sum (\<lambda>r. isna (get_cell r ''amount'')) t1
         in if amount_missing > 0 then impute_by_region ''amount'' t1 else Inr t1)
      else Inr t)"

section \<open>Cleaning stages 5 to 7: timestamp, location_region, duplicates (lines 242 to 281)\<close>

text \<open>
  Stage 5 converts the column; the two counts it prints (instants in the future, instants
  before 2000) change nothing.
\<close>

definition timestamp_stage :: "pandas \<Rightarrow> table \<Rightarrow> table" where
  "timestamp_stage P t =
     (if has_column t ''timestamp'' then map_column ''timestamp'' (to_datetime P) t else t)"

definition invalid_region :: "row \<Rightarrow> bool" where
  "invalid_region r = isin [''0'', ''nan'', ''none'', []] (get_cell r ''location_region'')"

definition region_stage :: "pandas \<Rightarrow> table \<Rightarrow> table" where
  "region_stage P t =
     (if has_column t ''location_region'' then
        (let t1 = map_column ''location_region'' (\<lambda>c. Str (str_lower (astype_str P c))) t;
             invalid_count = mask_sum invalid_region t1
         in if invalid_count > 0 then select_rows (\<lambda>r. \<not> invalid_region r) t1 else t1)
      else t)"

text \<open>\<^verbatim>\<open>df.drop_duplicates()\<close>: the first of equal rows stays, in its place.\<close>

fun keep_first :: "'a list \<Rightarrow> 'a list" where
  "keep_first [] = []"
| "keep_first (x # xs) = x # keep_first (filter (\<lambda>y. y \<noteq> x) xs)"

definition drop_duplicates :: "table \<Rightarrow> table" where
  "drop_duplicates t = t\<lparr>rows := keep_first (rows t)\<rparr>"

section \<open>The cleaning function (lines 134 to 288)\<close>

text \<open>
  The stages in the source's order; an exception of a stage ends the function. The last
  \<^verbatim>\<open>print\<close> divides by the initial number of rows, so the function raises
  ZeroDivisionError on a table with no rows, after every stage has run.
\<close>

definition enhanced_data_cleaning :: "pandas \<Rightarrow> table \<Rightarrow> error + table" where
  "enhanced_data_cleaning P df =
     (let initial_count = length (rows df)
      in case address_stage df of
           Inl e \<Rightarrow> Inl e
         | Inr t1 \<Rightarrow>
             (case risk_score_stage P (ip_stage P t1) of
                Inl e \<Rightarrow> Inl e
              | Inr t3 \<Rightarrow>
                  (case amount_stage P t3 of
                     Inl e \<Rightarrow> Inl e
                   | Inr t4 \<Rightarrow>
                       (let t7 = drop_duplicates (region_stage P (timestamp_stage P t4))
                        in if initial_count = 0 then Inl ZeroDivisionError else Inr t7))))"

section \<open>The quality report (validate_data_quality, lines 57 to 132)\<close>

text \<open>
  The function fills a dictionary with up to four entries; the record has one optional
  field for each. A range entry is a count or the text the handler stores.
\<close>

datatype range_issue = Count nat | ConversionError

record validation_issues =
  missing_values :: "(string \<times> nat) list option"
  duplicate_rows :: "nat option"
  invalid_categories :: "(string \<times> string list) list option"
  out_of_range_values :: "(string \<times> range_issue) list option"

text \<open>\<^verbatim>\<open>df.isnull().sum()\<close>, kept where positive (lines 64 to 67).\<close>

definition missing_data :: "table \<Rightarrow> (string \<times> nat) list" where
  "missing_data t =
     filter (\<lambda>cn. snd cn > 0)
       (map (\<lambda>c. (c, mask_sum (\<lambda>r. isna (get_cell r c)) t)) (columns t))"

text \<open>\<^verbatim>\<open>df.duplicated()\<close>: true on a row equal to an earlier one.\<close>

fun duplicated :: "'a list \<Rightarrow> 'a list \<Rightarrow> bool list" where
  "duplicated seen [] = []"
| "duplicated seen (x # xs) = (x \<in> set seen) # duplicated (x # seen) xs"

definition duplicate_count :: "table \<Rightarrow> nat" where
  "duplicate_count t = length (filter id (duplicated [] (rows t)))"

definition expected_categories :: "(string \<times> string list) list" where
  "expected_categories =
     [(''transaction_type'', [''transfer'', ''purchase'', ''sale'', ''exchange'']),
      (''location_region'', [''North America'', ''South America'', ''Europe'', ''Asia'', ''Africa'']),
      (''purchase_pattern'', [''focused'', ''high_value'', ''random'']),
      (''age_group'', [''new'', ''established'', ''veteran'']),
      (''anomaly'', [''low_risk'', ''moderate_risk'', ''high_risk''])]"

text \<open>One turn of the loop of lines 90 to 95; \<^verbatim>\<open>unique()\<close> keeps first occurrences.\<close>

definition category_check :: "pandas \<Rightarrow> table \<Rightarrow> string \<times> string list \<Rightarrow> (string \<times> string list) list" where
  "category_check P t ce =
     (if has_column t (fst ce) then
        (let unique_vals = keep_first (map (astype_str P) (column_values (fst ce) t));
             invalid_vals =
               filter (\<lambda>v. v \<notin> set (snd ce) \<and> v \<notin> set [''nan'', ''NaN'', ''None'', ''none''])
                 unique_vals
         in if invalid_vals \<noteq> [] then [(fst ce, invalid_vals)] else [])
      else [])"

definition categorical_issues :: "pandas \<Rightarrow> table \<Rightarrow> (string \<times> string list) list" where
  "categorical_issues P t = concat (map (category_check P t) expected_categories)"

definition numeric_checks :: "(string \<times> rat \<times> rat) list" where
  "numeric_checks =
     [(''amount'', 0, 1000000),
      (''login_frequency'', 0, 50),
      (''session_duration'', 0, 1000),
      (''risk_score'', 0, 100)]"

text \<open>
  The body of the \<^verbatim>\<open>try\<close> of lines 116 to 120 starts with
  \<^verbatim>\<open>pd.to_numeric(df[col], errors='coerce')\<close>. With \<^verbatim>\<open>errors='coerce'\<close> a cell that
  does not parse becomes NaN and nothing is raised, so the conversion of a column always
  answers \<open>Inr\<close>; the handler of line 121 is the \<open>Inl\<close> branch of \<open>range_check\<close>.
\<close>

definition to_numeric_series :: "pandas \<Rightarrow> cell list \<Rightarrow> error + cell list" where
  "to_numeric_series P cs = Inr (map (to_numeric P) cs)"

text \<open>\<^verbatim>\<open>(series < min_val) | (series > max_val)\<close>: a comparison with NaN is false.\<close>

definition out_of_range :: "rat \<Rightarrow> rat \<Rightarrow> cell \<Rightarrow> bool" where
  "out_of_range min_val max_val c = (case c of Num x \<Rightarrow> x < min_val \<or> x > max_val | _ \<Rightarrow> False)"

definition range_check :: "pandas \<Rightarrow> table \<Rightarrow> string \<times> rat \<times> rat \<Rightarrow> (string \<times> range_issue) list" where
  "range_check P t chk =
     (case chk of (col, min_val, max_val) \<Rightarrow>
        if has_column t col then
          (case to_numeric_series P (column_values col t) of
             Inl e \<Rightarrow> [(col, ConversionError)]
           | Inr series \<Rightarrow>
               (let n = length (filter (out_of_range min_val max_val) series)
                in if n > 0 then [(col, Count n)] else []))
        else [])"

definition range_issues :: "pandas \<Rightarrow> table \<Rightarrow> (string \<times> range_issue) list" where
  "range_issues P t = concat (map (range_check P t) numeric_checks)"

definition validate_data_quality :: "pandas \<Rightarrow> table \<Rightarrow> validation_issues" where
  "validate_data_quality P df =
     \<lparr>missing_values = (if length (missing_data df) > 0 then Some (missing_data df) else None),
      duplicate_rows = (if duplicate_count df > 0 then Some (duplicate_count df) else None),
      invalid_categories =
        (if categorical_issues P df \<noteq> [] then Some (categorical_issues P df) else None),
      out_of_range_values =
        (if range_issues P df \<noteq> [] then Some (range_issues P df) else None)\<rparr>"

section \<open>The consistency checks (post_processing_checks, lines 290 to 345)\<close>

text \<open>
  A comparison of a column with a number is computed cell by cell: false on NaN, and
  TypeError for the whole column when it holds a string or an instant. The function
  prints its two counters and returns nothing; the model returns the two counters.
\<close>

definition numeric :: "cell \<Rightarrow> bool" where
  "numeric c = (case c of Num x \<Rightarrow> True | NaN \<Rightarrow> True | _ \<Rightarrow> False)"

definition comparable :: "string \<Rightarrow> table \<Rightarrow> bool" where
  "comparable c t = list_all (\<lambda>r. numeric (get_cell r c)) (rows t)"

definition num_gt :: "rat \<Rightarrow> cell \<Rightarrow> bool" where
  "num_gt k c = (case c of Num x \<Rightarrow> x > k | _ \<Rightarrow> False)"

definition num_lt :: "rat \<Rightarrow> cell \<Rightarrow> bool" where
  "num_lt k c = (case c of Num x \<Rightarrow> x < k | _ \<Rightarrow> False)"

text \<open>Lines 300 to 303: Python's \<^verbatim>\<open>&\<close> binds tighter than \<^verbatim>\<open>|\<close>.\<close>

definition inconsistency :: "table \<Rightarrow> error + row list" where
  "inconsistency t =
     (if comparable ''risk_score'' t then
        Inr (filter
               (\<lambda>r. (num_gt 75 (get_cell r ''risk_score'') \<and> get_cell r ''anomaly'' = Str ''low_risk'') \<or>
                    (num_lt 25 (get_cell r ''risk_score'') \<and> get_cell r ''anomaly'' = Str ''high_risk''))
               (rows t))
      else Inl TypeError)"

definition suspicious :: "table \<Rightarrow> error + row list" where
  "suspicious t =
     (if comparable ''amount'' t then
        Inr (filter
               (\<lambda>r. num_gt 50000 (get_cell r ''amount'') \<and> get_cell r ''age_group'' = Str ''new'')
               (rows t))
      else Inl TypeError)"

definition negative_amounts :: "table \<Rightarrow> error + nat" where
  "negative_amounts t =
     (if comparable ''amount'' t
      then Inr (mask_sum (\<lambda>r. num_lt 0 (get_cell r ''amount'')) t)
      else Inl TypeError)"

definition long_sessions :: "table \<Rightarrow> error + nat" where
  "long_sessions t =
     (if comparable ''session_duration'' t
      then Inr (mask_sum (\<lambda>r. num_gt 500 (get_cell r ''session_duration'')) t)
      else Inl TypeError)"

text \<open>
  One check: \<open>total_checks\<close> goes up when the check runs, \<open>checks_passed\<close> when it
  found nothing. The pair is (\<open>checks_passed\<close>, \<open>total_checks\<close>).
\<close>

definition tally :: "nat \<times> nat \<Rightarrow> nat \<Rightarrow> nat \<times> nat" where
  "tally counters found =
     (if found > 0 then (fst counters, snd counters + 1)
      else (fst counters + 1, snd counters + 1))"

definition check_risk_anomaly :: "table \<Rightarrow> nat \<times> nat \<Rightarrow> error + nat \<times> nat" where
  "check_risk_anomaly t counters =
     (if has_column t ''risk_score'' \<and> has_column t ''anomaly'' then
        (case inconsistency t of
           Inl e \<Rightarrow> Inl e
         | Inr flagged \<Rightarrow> Inr (tally counters (length flagged)))
      else Inr counters)"

definition check_new_large :: "table \<Rightarrow> nat \<times> nat \<Rightarrow> error + nat \<times> nat" where
  "check_new_large t counters =
     (if has_column t ''amount'' \<and> has_column t ''age_group'' then
        (case suspicious t of
           Inl e \<Rightarrow> Inl e
         | Inr flagged \<Rightarrow> Inr (tally counters (length flagged)))
      else Inr counters)"

definition check_negative :: "table \<Rightarrow> nat \<times> nat \<Rightarrow> error + nat \<times> nat" where
  "check_negative t counters =
     (if has_column t ''amount'' then
        (case negative_amounts t of
           Inl e \<Rightarrow> Inl e
         | Inr n \<Rightarrow> Inr (tally counters n))
      else Inr counters)"

definition check_sessions :: "table \<Rightarrow> nat \<times> nat \<Rightarrow> error + nat \<times> nat" where
  "check_sessions t counters =
     (if has_column t ''session_duration'' then
        (case long_sessions t of
           Inl e \<Rightarrow> Inl e
         | Inr n \<Rightarrow> Inr (tally counters n))
      else Inr counters)"

definition and_then :: "error + 'a \<Rightarrow> ('a \<Rightarrow> error + 'b) \<Rightarrow> error + 'b" where
  "and_then x f = (case x of Inl e \<Rightarrow> Inl e | Inr v \<Rightarrow> f v)"

definition post_processing_checks :: "table \<Rightarrow> error + nat \<times> nat" where
  "post_processing_checks df_processed =
     and_then (check_risk_anomaly df_processed (0, 0)) (\<lambda>c1.
     and_then (check_new_large df_processed c1) (\<lambda>c2.
     and_then (check_negative df_processed c2) (\<lambda>c3.
     check_sessions df_processed c3)))"

section \<open>The two reports (lines 402 to 436)\<close>

text \<open>
  The reports are computed inside \<^verbatim>\<open>run_enhanced_data_pipeline\<close> from the cleaned
  table, whose risk_score and amount columns are numeric and whose timestamp column
  holds instants (stages 3 to 5 converted them). \<^verbatim>\<open>sort_values\<close> and \<^verbatim>\<open>nlargest\<close>
  put missing values last. Among equal keys the model keeps the order of the input, as
  numpy's sort does on a column of at most 16 rows; on a longer column the quicksort
  behind \<^verbatim>\<open>sort_values\<close> promises no order among equal keys, and the model describes
  one of the orders it can give.
\<close>

type_synonym report1 = "(cell \<times> cell \<times> cell \<times> nat) list"

definition mean :: "rat list \<Rightarrow> cell" where
  "mean xs = (if xs = [] then NaN else Num (sum_list xs / of_nat (length xs)))"

definition round_cell :: "pandas \<Rightarrow> cell \<Rightarrow> cell" where
  "round_cell P c = (case c of Num x \<Rightarrow> Num (round2 P x) | _ \<Rightarrow> c)"

definition std_cell :: "pandas \<Rightarrow> rat list \<Rightarrow> cell" where
  "std_cell P xs = (case std_of P xs of None \<Rightarrow> NaN | Some x \<Rightarrow> Num x)"

text \<open>Descending order of a numeric column as an ascending key, missing values last.\<close>

definition descending_key :: "cell \<Rightarrow> nat \<times> rat" where
  "descending_key c = (case c of Num x \<Rightarrow> (0, - x) | _ \<Rightarrow> (1, 0))"

text \<open>Ascending order of a column of instants, NaT last.\<close>

definition timestamp_key :: "cell \<Rightarrow> nat \<times> int" where
  "timestamp_key c = (case c of Ts n \<Rightarrow> (0, n) | _ \<Rightarrow> (1, 0))"

text \<open>
  Lines 403 to 406: mean, standard deviation and count of risk_score by region.
  \<^verbatim>\<open>groupby\<close> orders its groups by key; after stage 6 every region is a string, and
  strings are ordered character by character.
\<close>

definition region_text :: "cell \<Rightarrow> string" where
  "region_text c = (case c of Str s \<Rightarrow> s | _ \<Rightarrow> [])"

definition sorted_group_keys :: "table \<Rightarrow> cell list" where
  "sorted_group_keys t = sort_key region_text (group_keys t)"

definition region_stats :: "pandas \<Rightarrow> table \<Rightarrow> cell \<Rightarrow> cell \<times> cell \<times> cell \<times> nat" where
  "region_stats P t k =
     (let xs = numbers_of (column_values ''risk_score'' (region_rows k t))
      in (k, round_cell P (mean xs), round_cell P (std_cell P xs), length xs))"

definition tabela1 :: "pandas \<Rightarrow> table \<Rightarrow> report1 option" where
  "tabela1 P df_cleaned =
     (if has_column df_cleaned ''location_region'' \<and> has_column df_cleaned ''risk_score''
      then Some (sort_key (\<lambda>g. descending_key (fst (snd g)))
                   (map (region_stats P df_cleaned) (sorted_group_keys df_cleaned)))
      else None)"

text \<open>Line 416: the rows of a sale.\<close>

definition sales_df :: "table \<Rightarrow> row list" where
  "sales_df t = filter (\<lambda>r. get_cell r ''transaction_type'' = Str ''sale'') (rows t)"

text \<open>\<^verbatim>\<open>drop_duplicates(subset=..., keep='last')\<close>: the last row of each key stays.\<close>

fun keep_last_on :: "('a \<Rightarrow> 'k) \<Rightarrow> 'a list \<Rightarrow> 'a list" where
  "keep_last_on f [] = []"
| "keep_last_on f (x # xs) =
     (if f x \<in> set (map f xs) then keep_last_on f xs else x # keep_last_on f xs)"

text \<open>Lines 419 and 420.\<close>

definition latest_sales :: "table \<Rightarrow> row list" where
  "latest_sales t =
     keep_last_on (\<lambda>r. get_cell r ''receiving_address'')
       (sort_key (\<lambda>r. timestamp_key (get_cell r ''timestamp'')) (sales_df t))"

text \<open>\<^verbatim>\<open>nlargest(n, 'amount')\<close>: the first \<open>n\<close> rows of the descending order.\<close>

definition nlargest :: "nat \<Rightarrow> row list \<Rightarrow> row list" where
  "nlargest n rs = take n (sort_key (\<lambda>r. descending_key (get_cell r ''amount'')) rs)"

definition report_columns :: "string list" where
  "report_columns = [''receiving_address'', ''amount'', ''timestamp'']"

definition project :: "row list \<Rightarrow> table" where
  "project rs =
     \<lparr>columns = report_columns,
      rows = map (\<lambda>r. map (\<lambda>c. (c, get_cell r c)) report_columns) rs\<rparr>"

definition tabela2 :: "table \<Rightarrow> table option" where
  "tabela2 df_cleaned =
     (if list_all (has_column df_cleaned)
           [''transaction_type'', ''receiving_address'', ''amount'', ''timestamp'']
      then (if length (sales_df df_cleaned) > 0
            then (if length (latest_sales df_cleaned) \<ge> 3
                  then Some (project (nlargest 3 (latest_sales df_cleaned)))
                  else Some (project (latest_sales df_cleaned)))
            else Some \<lparr>columns = report_columns, rows = []\<rparr>)
      else None)"

section \<open>The pipeline and the save step (lines 347 to 482)\<close>

text \<open>
  The file system is a function from paths to what \<^verbatim>\<open>pd.read_csv\<close> finds there:
  nothing, something it cannot read, or a table.
\<close>

datatype disk_file = Absent | Unreadable | Csv table

type_synonym files = "string \<Rightarrow> disk_file"

definition read_csv :: "files \<Rightarrow> string \<Rightarrow> error + table" where
  "read_csv fs file_path =
     (case fs file_path of
        Absent \<Rightarrow> Inl FileNotFoundError
      | Unreadable \<Rightarrow> Inl OtherError
      | Csv t \<Rightarrow> Inr t)"

text \<open>
  The body of the \<^verbatim>\<open>try\<close> after the read (lines 357 to 464). The exploratory
  analysis only prints. Line 372 divides by the number of rows read.
\<close>

definition pipeline_body :: "pandas \<Rightarrow> table \<Rightarrow> error + table \<times> report1 option \<times> table option" where
  "pipeline_body P df =
     (let total_records = length (rows df);
          validation_issues = validate_data_quality P df
      in and_then (enhanced_data_cleaning P df) (\<lambda>df_cleaned.
           if total_records = 0 then Inl ZeroDivisionError
           else and_then (post_processing_checks df_cleaned) (\<lambda>counters.
                  Inr (df_cleaned, tabela1 P df_cleaned, tabela2 df_cleaned))))"

text \<open>The two handlers (lines 466 to 473) return the same triple of \<^verbatim>\<open>None\<close>.\<close>

definition run_enhanced_data_pipeline ::
  "pandas \<Rightarrow> files \<Rightarrow> string \<Rightarrow> table option \<times> report1 option \<times> table option" where
  "run_enhanced_data_pipeline P fs file_path =
     (case and_then (read_csv fs file_path) (pipeline_body P) of
        Inl FileNotFoundError \<Rightarrow> (None, None, None)
      | Inl e \<Rightarrow> (None, None, None)
      | Inr (df_cleaned, t1, t2) \<Rightarrow> (Some df_cleaned, t1, t2))"

definition output_path :: string where
  "output_path = ''data/df_fraud_credit_cleaned.csv''"

definition save_df_clean :: "table option \<Rightarrow> files \<Rightarrow> files" where
  "save_df_clean df_cleaned fs =
     (case df_cleaned of
        Some t \<Rightarrow> fs(output_path := Csv t)
      | None \<Rightarrow> fs)"

text \<open>Lines 487 and 488: the script runs the pipeline and hands its first result to the save step.\<close>

definition run_and_save :: "pandas \<Rightarrow> files \<Rightarrow> string \<Rightarrow> files" where
  "run_and_save P fs file_path =
     save_df_clean (fst (run_enhanced_data_pipeline P fs file_path)) fs"

section \<open>The cleaning function on a store of frames\<close>

text \<open>
  Python passes a DataFrame by reference, and the cleaning function both rewrites the
  frame a name refers to (\<^verbatim>\<open>df_clean[c] = ...\<close>, \<^verbatim>\<open>df_clean.loc[m, c] = ...\<close>) and
  binds the name to a new frame (\<^verbatim>\<open>df.copy()\<close>, \<^verbatim>\<open>df_clean[mask]\<close>,
  \<^verbatim>\<open>drop_duplicates()\<close>). The store maps references to frames; references below
  \<open>fresh\<close> are in use. The function below is \<^verbatim>\<open>enhanced_data_cleaning\<close> statement by
  statement, each statement marked by what it does to the store.
\<close>

type_synonym ref = nat

record store =
  frames :: "ref \<Rightarrow> table option"
  fresh :: ref

definition new_frame :: "table \<Rightarrow> store \<Rightarrow> ref \<times> store" where
  "new_frame t s = (fresh s, s\<lparr>frames := (frames s)(fresh s \<mapsto> t), fresh := Suc (fresh s)\<rparr>)"

definition update_frame :: "ref \<Rightarrow> table \<Rightarrow> store \<Rightarrow> store" where
  "update_frame r t s = s\<lparr>frames := (frames s)(r \<mapsto> t)\<rparr>"

text \<open>Line 151 runs: both columns are there and some address is invalid.\<close>

definition address_filters :: "table \<Rightarrow> bool" where
  "address_filters t =
     (has_column t ''sending_address'' \<and> has_column t ''receiving_address'' \<and>
      mask_sum (\<lambda>r. \<not> address_mask r) t > 0)"

text \<open>Line 261, which rewrites the column before line 272 may filter.\<close>

definition lower_region :: "pandas \<Rightarrow> table \<Rightarrow> table" where
  "lower_region P t =
     (if has_column t ''location_region''
      then map_column ''location_region'' (\<lambda>c. Str (str_lower (astype_str P c))) t
      else t)"

text \<open>Line 272 runs.\<close>

definition region_filters :: "pandas \<Rightarrow> table \<Rightarrow> bool" where
  "region_filters P t =
     (has_column t ''location_region'' \<and> mask_sum invalid_region (lower_region P t) > 0)"

text \<open>
  When stage 1 raises AttributeError, only the copy has been made. When \<^verbatim>\<open>groupby\<close>
  raises KeyError in stage 3 or 4, the conversion of the column (line 173 or 207) has
  already been written to the frame.
\<close>

definition enhanced_data_cleaning_st :: "pandas \<Rightarrow> ref \<Rightarrow> store \<Rightarrow> (error + ref) \<times> store" where
  "enhanced_data_cleaning_st P df s =
     (case frames s df of
        None \<Rightarrow> (Inl OtherError, s)
      | Some t \<Rightarrow>
          (let initial_count = length (rows t);
               (c0, s0) = new_frame t s
           in case address_stage t of
                Inl e \<Rightarrow> (Inl e, s0)
              | Inr t1 \<Rightarrow>
                  (let (c1, s1) = (if address_filters t then new_frame t1 s0 else (c0, s0));
                       t2 = ip_stage P t1;
                       s2 = update_frame c1 t2 s1
                   in case risk_score_stage P t2 of
                        Inl e \<Rightarrow>
                          (Inl e, update_frame c1 (map_column ''risk_score'' (to_numeric P) t2) s2)
                      | Inr t3 \<Rightarrow>
                          (let s3 = update_frame c1 t3 s2
                           in case amount_stage P t3 of
                                Inl e \<Rightarrow>
                                  (Inl e, update_frame c1 (map_column ''amount'' (to_numeric P) t3) s3)
                              | Inr t4 \<Rightarrow>
                                  (let t5 = timestamp_stage P t4;
                                       s5 = update_frame c1 (lower_region P t5) s3;
                                       t6 = region_stage P t5;
                                       (c6, s6) =
                                         (if region_filters P t5 then new_frame t6 s5 else (c1, s5));
                                       (c7, s7) = new_frame (drop_duplicates t6) s6
                                   in if initial_count = 0 then (Inl ZeroDivisionError, s7)
                                      else (Inr c7, s7))))))"

section \<open>An instance of the library on unsigned decimal integers\<close>

text \<open>
  The examples below need the library functions at a few concrete values. This instance
  reads a non-empty string of decimal digits as that integer and nothing else as a
  number, and reads a number of seconds as an instant when it fits 64 bits of
  nanoseconds, as pandas does on those values. Rounding is to the nearest hundredth,
  a tie to the even one. Its printers and its standard deviation are never reached by an
  example: they answer a fixed value.
\<close>

definition digit_val :: "char \<Rightarrow> nat option" where
  "digit_val c = map_of (zip ''0123456789'' [0, 1, 2, 3, 4, 5, 6, 7, 8, 9]) c"

fun digits_acc :: "nat \<Rightarrow> string \<Rightarrow> nat option" where
  "digits_acc a [] = Some a"
| "digits_acc a (c # cs) =
     (case digit_val c of None \<Rightarrow> None | Some d \<Rightarrow> digits_acc (10 * a + d) cs)"

definition digits_numeric :: "string \<Rightarrow> rat option" where
  "digits_numeric s = (if s = [] then None else map_option of_nat (digits_acc 0 s))"

definition seconds_instant :: "rat \<Rightarrow> int option" where
  "seconds_instant x =
     (let n = \<lfloor>x * 1000000000\<rfloor>
      in if - (2 ^ 63) < n \<and> n < 2 ^ 63 then Some n else None)"

definition round_half_even :: "rat \<Rightarrow> rat" where
  "round_half_even x =
     (let y = x * 100; f = \<lfloor>y\<rfloor>
      in if y - of_int f < 1 / 2 then of_int f / 100
         else if y - of_int f > 1 / 2 then of_int (f + 1) / 100
         else if even f then of_int f / 100
         else of_int (f + 1) / 100)"

definition digits_pandas :: pandas where
  "digits_pandas =
     \<lparr>numeric_of_str = digits_numeric,
      str_of_num = (\<lambda>x. ''<float>''),
      str_of_ts = (\<lambda>n. ''<timestamp>''),
      datetime_of_num = seconds_instant,
      datetime_of_str = (\<lambda>s. None),
      round2 = round_half_even,
      std_of = (\<lambda>xs. None)\<rparr>"

section \<open>Example tables\<close>


definition ip_example :: table where
  "ip_example =
     \<lparr>columns = [''ip_prefix''],
      rows = [[(''ip_prefix'', Str ''NONE'')], [(''ip_prefix'', Str ''0.0'')],
              [(''ip_prefix'', NaN)], [(''ip_prefix'', Str ''192.168'')]]\<rparr>"

definition ip_upper_example :: table where
  "ip_upper_example = \<lparr>columns = [''ip_prefix''], rows = [[(''ip_prefix'', Str ''NONE'')]]\<rparr>"

text \<open>Three rows of one region; the third risk_score (or amount) does not parse.\<close>

definition risk_example :: table where
  "risk_example =
     \<lparr>columns = [''location_region'', ''risk_score''],
      rows = [[(''location_region'', Str ''Asia''), (''risk_score'', Str ''10'')],
              [(''location_region'', Str ''Asia''), (''risk_score'', Str ''20'')],
              [(''location_region'', Str ''Asia''), (''risk_score'', Str ''abc'')]]\<rparr>"

definition amount_example :: table where
  "amount_example =
     \<lparr>columns = [''location_region'', ''amount''],
      rows = [[(''location_region'', Str ''Asia''), (''amount'', Str ''10'')],
              [(''location_region'', Str ''Asia''), (''amount'', Str ''20'')],
              [(''location_region'', Str ''Asia''), (''amount'', Str ''abc'')]]\<rparr>"

text \<open>\<^verbatim>\<open>df.rename(columns={a: b})\<close>, to compare two stages up to the column they work on.\<close>

definition rename_column :: "string \<Rightarrow> string \<Rightarrow> table \<Rightarrow> table" where
  "rename_column a b t =
     \<lparr>columns = map (\<lambda>c. if c = a then b else c) (columns t),
      rows = map (map (\<lambda>kv. (if fst kv = a then b else fst kv, snd kv))) (rows t)\<rparr>"

text \<open>Two rows: an amount that does not parse and one above the bound.\<close>

definition range_example :: table where
  "range_example =
     \<lparr>columns = [''amount'', ''risk_score''],
      rows = [[(''amount'', Str ''abc''), (''risk_score'', Str ''abc'')],
              [(''amount'', Str ''2000000''), (''risk_score'', Str ''50'')]]\<rparr>"

text \<open>One row whose sending address is too short.\<close>

definition short_address_example :: table where
  "short_address_example =
     \<lparr>columns = [''sending_address'', ''receiving_address''],
      rows = [[(''sending_address'', Str ''0x1''),
               (''receiving_address'', Str ''0x2222222222222222222222222222222222222222'')]]\<rparr>"

text \<open>Four rows for the consistency check: the first two contradict their label.\<close>

definition consistency_example :: table where
  "consistency_example =
     \<lparr>columns = [''risk_score'', ''anomaly''],
      rows = [[(''risk_score'', Str ''90''), (''anomaly'', Str ''low_risk'')],
              [(''risk_score'', Str ''10''), (''anomaly'', Str ''high_risk'')],
              [(''risk_score'', Str ''50''), (''anomaly'', Str ''low_risk'')],
              [(''risk_score'', Str ''90''), (''anomaly'', Str ''high_risk'')]]\<rparr>"

definition consistency_cleaned :: table where
  "consistency_cleaned =
     \<lparr>columns = [''risk_score'', ''anomaly''],
      rows = [[(''risk_score'', Num 90), (''anomaly'', Str ''low_risk'')],
              [(''risk_score'', Num 10), (''anomaly'', Str ''high_risk'')],
              [(''risk_score'', Num 50), (''anomaly'', Str ''low_risk'')],
              [(''risk_score'', Num 90), (''anomaly'', Str ''high_risk'')]]\<rparr>"

text \<open>Two file systems: one with no file at all, one whose every file is a table with no rows.\<close>

definition no_files :: files where
  "no_files = (\<lambda>p. Absent)"

definition empty_table_files :: files where
  "empty_table_files = (\<lambda>p. Csv \<lparr>columns = [''amount''], rows = []\<rparr>)"

text \<open>A store with one frame, at reference 0.\<close>

definition one_frame_store :: store where
  "one_frame_store = \<lparr>frames = (\<lambda>r. if r = 0 then Some consistency_example else None), fresh = 1\<rparr>"

text \<open>
  Two sales to one address: the first at second 100 of the epoch, the second with no
  timestamp.
\<close>

definition sales_example :: table where
  "sales_example =
     \<lparr>columns = [''sending_address'', ''receiving_address'', ''transaction_type'',
                 ''amount'', ''timestamp''],
      rows =
        [[(''sending_address'', Str ''0x1111111111111111111111111111111111111111''),
          (''receiving_address'', Str ''0x2222222222222222222222222222222222222222''),
          (''transaction_type'', Str ''sale''), (''amount'', Num 50), (''timestamp'', Num 100)],
         [(''sending_address'', Str ''0x1111111111111111111111111111111111111111''),
          (''receiving_address'', Str ''0x2222222222222222222222222222222222222222''),
          (''transaction_type'', Str ''sale''), (''amount'', Num 70), (''timestamp'', NaN)]]\<rparr>"

definition sales_cleaned :: table where
  "sales_cleaned =
     \<lparr>columns = [''sending_address'', ''receiving_address'', ''transaction_type'',
                 ''amount'', ''timestamp''],
      rows =
        [[(''sending_address'', Str ''0x1111111111111111111111111111111111111111''),
          (''receiving_address'', Str ''0x2222222222222222222222222222222222222222''),
          (''transaction_type'', Str ''sale''), (''amount'', Num 50),
          (''timestamp'', Ts 100000000000)],
         [(''sending_address'', Str ''0x1111111111111111111111111111111111111111''),
          (''receiving_address'', Str ''0x2222222222222222222222222222222222222222''),
          (''transaction_type'', Str ''sale''), (''amount'', Num 70), (''timestamp'', NaN)]]\<rparr>"


section \<open>Cells, masks and lists\<close>

lemma get_set_cell: "get_cell (set_cell c v r) c = v"
  by (simp add: get_cell_def set_cell_def update_conv')

lemma get_set_cell_other: "c' \<noteq> c \<Longrightarrow> get_cell (set_cell c v r) c' = get_cell r c'"
  by (simp add: get_cell_def set_cell_def update_conv')

lemma set_set_cell: "set_cell c v (set_cell c w r) = set_cell c v r"
  by (simp add: set_cell_def)

lemma filter_none: "length (filter p xs) = 0 \<Longrightarrow> x \<in> set xs \<Longrightarrow> \<not> p x"
  by (induction xs) (auto split: if_splits)



lemma rows_map_column: "rows (map_column c f t) = map (\<lambda>r. set_cell c (f (get_cell r c)) r) (rows t)"
  by (simp add: map_column_def)

lemma rows_loc_assign: "rows (loc_assign m c v t) = map (\<lambda>r. if m r then set_cell c v r else r) (rows t)"
  by (simp add: loc_assign_def)

lemma columns_map_column: "columns (map_column c f t) = columns t"
  by (simp add: map_column_def)

lemma columns_loc_assign: "columns (loc_assign m c v t) = columns t"
  by (simp add: loc_assign_def)

lemma rows_guarded_loc_assign:
  "rows (if mask_sum m t > 0 then loc_assign m c v t else t) =
     map (\<lambda>r. if m r then set_cell c v r else r) (rows t)"
proof (cases "mask_sum m t > 0")
  case True
  then show ?thesis by (simp add: rows_loc_assign)
next
  case False
  then have "length (filter m (rows t)) = 0"
    by (simp add: mask_sum_def)
  then have "\<And>r. r \<in> set (rows t) \<Longrightarrow> \<not> m r"
    by (rule filter_none)
  then have "map (\<lambda>r. if m r then set_cell c v r else r) (rows t) = rows t"
    by (intro map_idI) simp
  with False show ?thesis by simp
qed

lemma invalid_ips_converted:
  "invalid_ips (set_cell ''ip_prefix'' (Str s) r) \<longleftrightarrow>
     s \<in> set [''0.0'', ''0'', ''nan'', ''NaN'', ''None'', ''none'']"
  unfolding invalid_ips_def get_set_cell isin_def by simp

lemma numeric_to_numeric: "numeric (to_numeric P c)"
  by (simp add: numeric_def to_numeric_def split: cell.splits option.splits)

lemma numeric_median: "numeric (median cs)"
  by (simp add: numeric_def median_def Let_def)

lemma get_set_cell_other2: "c \<noteq> c' \<Longrightarrow> get_cell (set_cell c v r) c' = get_cell r c'"
  by (simp add: get_cell_def set_cell_def update_conv')

lemma comparable_iff: "comparable c t \<longleftrightarrow> (\<forall>r \<in> set (rows t). numeric (get_cell r c))"
  by (simp add: comparable_def list_all_iff)

lemma comparable_map_column_same:
  "(\<And>v. numeric (f v)) \<Longrightarrow> comparable c (map_column c f t)"
  by (simp add: comparable_iff rows_map_column get_set_cell)

lemma comparable_map_column_other:
  "c' \<noteq> c \<Longrightarrow> comparable c (map_column c' f t) = comparable c t"
  by (simp add: comparable_iff rows_map_column get_set_cell_other)

lemma comparable_loc_assign_same:
  "numeric v \<Longrightarrow> comparable c t \<Longrightarrow> comparable c (loc_assign m c v t)"
  by (auto simp: comparable_iff rows_loc_assign get_set_cell)

lemma comparable_loc_assign_other:
  assumes "c' \<noteq> c"
  shows "comparable c (loc_assign m c' v t) = comparable c t"
proof -
  have "numeric (get_cell (if m r then set_cell c' v r else r) c) = numeric (get_cell r c)" for r
    using assms by (simp add: get_set_cell_other2)
  then show ?thesis
    unfolding comparable_def rows_loc_assign list.pred_map comp_def by simp
qed

lemma comparable_select_rows: "comparable c t \<Longrightarrow> comparable c (select_rows m t)"
  by (simp add: comparable_iff select_rows_def)

lemma set_keep_first: "set (keep_first xs) = set xs"
proof (induction xs rule: keep_first.induct)
  case 1
  show ?case by simp
next
  case (2 x xs)
  then show ?case by auto
qed

lemma comparable_drop_duplicates: "comparable c (drop_duplicates t) = comparable c t"
  by (simp add: comparable_iff drop_duplicates_def set_keep_first)

lemma comparable_fill_region_same:
  "numeric (snd km) \<Longrightarrow> comparable c t \<Longrightarrow> comparable c (fill_region c km t)"
  by (simp add: fill_region_def Let_def comparable_loc_assign_same)

lemma comparable_fill_region_other:
  "c' \<noteq> c \<Longrightarrow> comparable c (fill_region c' km t) = comparable c t"
  by (simp add: fill_region_def Let_def comparable_loc_assign_other)

lemma comparable_fold_same:
  "\<forall>km \<in> set kms. numeric (snd km) \<Longrightarrow> comparable c t \<Longrightarrow>
     comparable c (fold (fill_region c) kms t)"
  by (induction kms arbitrary: t) (simp_all add: comparable_fill_region_same)

lemma comparable_fold_other:
  "c' \<noteq> c \<Longrightarrow> comparable c (fold (fill_region c') kms t) = comparable c t"
  by (induction kms arbitrary: t) (simp_all add: comparable_fill_region_other)

lemma comparable_fill_global_same: "comparable c t \<Longrightarrow> comparable c (fill_global c t)"
  by (simp add: fill_global_def Let_def comparable_loc_assign_same numeric_median)

lemma comparable_fill_global_other:
  "c' \<noteq> c \<Longrightarrow> comparable c (fill_global c' t) = comparable c t"
  by (simp add: fill_global_def Let_def comparable_loc_assign_other)

lemma groupby_median_numeric:
  "groupby_median c t = Inr kms \<Longrightarrow> \<forall>km \<in> set kms. numeric (snd km)"
  by (auto simp: groupby_median_def numeric_median split: if_splits)

lemma comparable_impute_same:
  "impute_by_region c t = Inr t' \<Longrightarrow> comparable c t \<Longrightarrow> comparable c t'"
  by (auto simp: impute_by_region_def comparable_fill_global_same comparable_fold_same
      groupby_median_numeric split: sum.splits)

lemma comparable_impute_other:
  "impute_by_region c' t = Inr t' \<Longrightarrow> c' \<noteq> c \<Longrightarrow> comparable c t' = comparable c t"
  by (auto simp: impute_by_region_def comparable_fill_global_other comparable_fold_other
      split: sum.splits)

lemma columns_select_rows: "columns (select_rows m t) = columns t"
  by (simp add: select_rows_def)

lemma address_stage_cases:
  assumes "address_stage t = Inr t'"
  shows "t' = t \<or> t' = select_rows address_mask t"
proof (cases "has_column t ''sending_address'' \<and> has_column t ''receiving_address''")
  case False
  with assms show ?thesis unfolding address_stage_def by simp
next
  case True
  show ?thesis
  proof (cases "mask_sum (\<lambda>r. \<not> address_mask r) t > 0")
    case True
    with assms show ?thesis unfolding address_stage_def Let_def by (simp split: if_splits)
  next
    case False
    with assms show ?thesis unfolding address_stage_def Let_def by (simp split: if_splits)
  qed
qed

lemma columns_address_stage: "address_stage t = Inr t' \<Longrightarrow> columns t' = columns t"
  using address_stage_cases [of t t'] by (auto simp: columns_select_rows)

lemma columns_ip_stage: "columns (ip_stage P t) = columns t"
  by (simp add: ip_stage_def Let_def columns_loc_assign columns_map_column)

lemma columns_fill_region: "columns (fill_region c km t) = columns t"
  by (simp add: fill_region_def Let_def columns_loc_assign)

lemma columns_fold_fill_region: "columns (fold (fill_region c) kms t) = columns t"
  by (induction kms arbitrary: t) (simp_all add: columns_fill_region)

lemma columns_fill_global: "columns (fill_global c t) = columns t"
  by (simp add: fill_global_def Let_def columns_loc_assign)

lemma columns_impute: "impute_by_region c t = Inr t' \<Longrightarrow> columns t' = columns t"
  by (auto simp: impute_by_region_def columns_fill_global columns_fold_fill_region
      split: sum.splits)

lemma columns_risk_score_stage: "risk_score_stage P t = Inr t' \<Longrightarrow> columns t' = columns t"
  by (auto simp: risk_score_stage_def Let_def columns_map_column
      dest!: columns_impute split: if_splits)

lemma columns_amount_stage: "amount_stage P t = Inr t' \<Longrightarrow> columns t' = columns t"
  by (auto simp: amount_stage_def Let_def columns_map_column
      dest!: columns_impute split: if_splits)

lemma columns_timestamp_stage: "columns (timestamp_stage P t) = columns t"
  by (simp add: timestamp_stage_def columns_map_column)

lemma columns_region_stage: "columns (region_stage P t) = columns t"
  by (simp add: region_stage_def Let_def columns_map_column columns_select_rows)

lemma columns_drop_duplicates: "columns (drop_duplicates t) = columns t"
  by (simp add: drop_duplicates_def)

lemma cleaning_stages:
  assumes "enhanced_data_cleaning P df = Inr t"
  obtains t1 t3 t4 where
    "address_stage df = Inr t1"
    "risk_score_stage P (ip_stage P t1) = Inr t3"
    "amount_stage P t3 = Inr t4"
    "t = drop_duplicates (region_stage P (timestamp_stage P t4))"
    "rows df \<noteq> []"
proof (cases "address_stage df")
  case (Inl e)
  with assms show ?thesis unfolding enhanced_data_cleaning_def Let_def by simp
next
  case s1: (Inr t1)
  show ?thesis
  proof (cases "risk_score_stage P (ip_stage P t1)")
    case (Inl e)
    with assms s1 show ?thesis unfolding enhanced_data_cleaning_def Let_def by simp
  next
    case s3: (Inr t3)
    show ?thesis
    proof (cases "amount_stage P t3")
      case (Inl e)
      with assms s1 s3 show ?thesis unfolding enhanced_data_cleaning_def Let_def by simp
    next
      case s4: (Inr t4)
      from assms s1 s3 s4 have "rows df \<noteq> []"
        unfolding enhanced_data_cleaning_def Let_def by (simp split: if_splits)
      moreover from assms s1 s3 s4 have
        "t = drop_duplicates (region_stage P (timestamp_stage P t4))"
        unfolding enhanced_data_cleaning_def Let_def by (simp split: if_splits)
      ultimately show ?thesis using s1 s3 s4 that by blast
    qed
  qed
qed

lemma columns_enhanced_data_cleaning:
  assumes "enhanced_data_cleaning P df = Inr t"
  shows "columns t = columns df"
proof -
  from assms obtain t1 t3 t4 where
    s1: "address_stage df = Inr t1" and
    s3: "risk_score_stage P (ip_stage P t1) = Inr t3" and
    s4: "amount_stage P t3 = Inr t4" and
    t: "t = drop_duplicates (region_stage P (timestamp_stage P t4))"
    by (rule cleaning_stages)
  show ?thesis
    unfolding t columns_drop_duplicates columns_region_stage columns_timestamp_stage
      columns_amount_stage [OF s4] columns_risk_score_stage [OF s3]
      columns_ip_stage columns_address_stage [OF s1] ..
qed

lemma risk_score_stage_cases:
  assumes "risk_score_stage P t = Inr t'" and "has_column t ''risk_score''"
  shows "t' = map_column ''risk_score'' (to_numeric P) t \<or>
         impute_by_region ''risk_score'' (map_column ''risk_score'' (to_numeric P) t) = Inr t'"
proof (cases "mask_sum risk_score_missing t > 0")
  case True
  with assms show ?thesis unfolding risk_score_stage_def Let_def by simp
next
  case False
  with assms show ?thesis unfolding risk_score_stage_def Let_def by simp
qed

lemma amount_stage_cases:
  assumes "amount_stage P t = Inr t'" and "has_column t ''amount''"
  shows "t' = map_column ''amount'' (to_numeric P) t \<or>
         impute_by_region ''amount'' (map_column ''amount'' (to_numeric P) t) = Inr t'"
proof (cases "mask_sum (\<lambda>r. isna (get_cell r ''amount'')) (map_column ''amount'' (to_numeric P) t) > 0")
  case True
  with assms show ?thesis unfolding amount_stage_def Let_def by simp
next
  case False
  with assms show ?thesis unfolding amount_stage_def Let_def by simp
qed

lemma comparable_risk_score_stage:
  assumes "risk_score_stage P t = Inr t'" and "has_column t ''risk_score''"
  shows "comparable ''risk_score'' t'"
proof -
  let ?t1 = "map_column ''risk_score'' (to_numeric P) t"
  have c1: "comparable ''risk_score'' ?t1"
    by (rule comparable_map_column_same) (rule numeric_to_numeric)
  from risk_score_stage_cases [OF assms] show ?thesis
  proof
    assume "t' = ?t1"
    with c1 show ?thesis by simp
  next
    assume "impute_by_region ''risk_score'' ?t1 = Inr t'"
    then show ?thesis using c1 by (rule comparable_impute_same)
  qed
qed

lemma comparable_amount_stage:
  assumes "amount_stage P t = Inr t'" and "has_column t ''amount''"
  shows "comparable ''amount'' t'"
proof -
  let ?t1 = "map_column ''amount'' (to_numeric P) t"
  have c1: "comparable ''amount'' ?t1"
    by (rule comparable_map_column_same) (rule numeric_to_numeric)
  from amount_stage_cases [OF assms] show ?thesis
  proof
    assume "t' = ?t1"
    with c1 show ?thesis by simp
  next
    assume "impute_by_region ''amount'' ?t1 = Inr t'"
    then show ?thesis using c1 by (rule comparable_impute_same)
  qed
qed

lemma comparable_amount_stage_other:
  assumes "amount_stage P t = Inr t'" and "c \<noteq> ''amount''"
  shows "comparable c t' = comparable c t"
proof (cases "has_column t ''amount''")
  case False
  with assms(1) have "t' = t" unfolding amount_stage_def by simp
  then show ?thesis by simp
next
  case True
  let ?t1 = "map_column ''amount'' (to_numeric P) t"
  have c1: "comparable c ?t1 = comparable c t"
    using assms(2) by (simp add: comparable_map_column_other)
  from amount_stage_cases [OF assms(1) True] show ?thesis
  proof
    assume "t' = ?t1"
    with c1 show ?thesis by simp
  next
    assume imp: "impute_by_region ''amount'' ?t1 = Inr t'"
    have "comparable c t' = comparable c ?t1"
      using imp by (rule comparable_impute_other) (use assms(2) in simp)
    with c1 show ?thesis by simp
  qed
qed

lemma comparable_timestamp_stage:
  "c \<noteq> ''timestamp'' \<Longrightarrow> comparable c (timestamp_stage P t) = comparable c t"
  by (simp add: timestamp_stage_def comparable_map_column_other)

lemma comparable_region_stage:
  "c \<noteq> ''location_region'' \<Longrightarrow> comparable c t \<Longrightarrow> comparable c (region_stage P t)"
  by (simp add: region_stage_def Let_def comparable_map_column_other comparable_select_rows)

lemma cleaned_risk_score_comparable:
  assumes "enhanced_data_cleaning P df = Inr t" and "has_column t ''risk_score''"
  shows "comparable ''risk_score'' t"
proof -
  from assms(1) obtain t1 t3 t4 where
    s1: "address_stage df = Inr t1" and
    s3: "risk_score_stage P (ip_stage P t1) = Inr t3" and
    s4: "amount_stage P t3 = Inr t4" and
    t: "t = drop_duplicates (region_stage P (timestamp_stage P t4))"
    by (rule cleaning_stages)
  have "columns (ip_stage P t1) = columns t"
    using columns_enhanced_data_cleaning [OF assms(1)]
    by (simp add: columns_ip_stage columns_address_stage [OF s1])
  with assms(2) have "has_column (ip_stage P t1) ''risk_score''"
    by (simp add: has_column_def)
  with s3 have "comparable ''risk_score'' t3"
    by (rule comparable_risk_score_stage)
  then have "comparable ''risk_score'' t4"
    using comparable_amount_stage_other [OF s4, of "''risk_score''"] by simp
  then have "comparable ''risk_score'' (timestamp_stage P t4)"
    by (simp add: comparable_timestamp_stage)
  then have "comparable ''risk_score'' (region_stage P (timestamp_stage P t4))"
    by (rule comparable_region_stage [rotated]) simp
  then show ?thesis
    unfolding t by (simp add: comparable_drop_duplicates)
qed

lemma num_gt_iff: "num_gt k c \<longleftrightarrow> (\<exists>x. c = Num x \<and> x > k)"
  by (cases c) (simp_all add: num_gt_def)

lemma num_lt_iff: "num_lt k c \<longleftrightarrow> (\<exists>x. c = Num x \<and> x < k)"
  by (cases c) (simp_all add: num_lt_def)

lemma tally_found: "tally (p, n) (length xs) = (if xs = [] then p + 1 else p, n + 1)"
  by (simp add: tally_def)

lemma run_pipeline_failure:
  assumes "and_then (read_csv fs file_path) (pipeline_body P) = Inl e"
  shows "run_enhanced_data_pipeline P fs file_path = (None, None, None)"
  unfolding run_enhanced_data_pipeline_def assms by (cases e) simp_all

lemma read_csv_absent: "fs file_path = Absent \<Longrightarrow> read_csv fs file_path = Inl FileNotFoundError"
  by (simp add: read_csv_def)

lemma cleaning_st_frame:
  assumes "frames s df = Some t" and "r < fresh s"
  shows "frames (snd (enhanced_data_cleaning_st P df s)) r = frames s r"
  using assms
  by (simp add: enhanced_data_cleaning_st_def Let_def split_def new_frame_def update_frame_def
      split: sum.splits)

lemma cleaning_st_error:
  assumes "frames s df = Some t"
  shows "fst (enhanced_data_cleaning_st P df s) = Inl e \<longleftrightarrow> enhanced_data_cleaning P t = Inl e"
  using assms
  by (simp add: enhanced_data_cleaning_st_def enhanced_data_cleaning_def Let_def split_def
      split: sum.splits)

lemma cleaning_st_result:
  assumes "frames s df = Some t" and "enhanced_data_cleaning P t = Inr t'"
  shows "\<exists>c. fst (enhanced_data_cleaning_st P df s) = Inr c \<and> fresh s \<le> c \<and>
             frames (snd (enhanced_data_cleaning_st P df s)) c = Some t'"
proof -
  from assms(2) obtain t1 t3 t4 where
    s1: "address_stage t = Inr t1" and
    s3: "risk_score_stage P (ip_stage P t1) = Inr t3" and
    s4: "amount_stage P t3 = Inr t4" and
    t': "t' = drop_duplicates (region_stage P (timestamp_stage P t4))" and
    ne: "rows t \<noteq> []"
    by (rule cleaning_stages)
  show ?thesis
    unfolding t'
    by (simp add: enhanced_data_cleaning_st_def assms(1) s1 s3 s4 ne Let_def split_def
        new_frame_def update_frame_def)
qed

lemma to_numeric_number [simp]: "to_numeric P (Num x) = Num x" "to_numeric P NaN = NaN"
  by (simp_all add: to_numeric_def)

lemma to_datetime_instant [simp]: "to_datetime P (Ts n) = Ts n" "to_datetime P NaN = NaN"
  by (simp_all add: to_datetime_def)

section \<open>Evaluations on the example tables\<close>

lemma to_numeric_digits:
  "to_numeric digits_pandas (Str ''10'') = Num 10"
  "to_numeric digits_pandas (Str ''20'') = Num 20"
  "to_numeric digits_pandas (Str ''50'') = Num 50"
  "to_numeric digits_pandas (Str ''90'') = Num 90"
  "to_numeric digits_pandas (Str ''2000000'') = Num 2000000"
  "to_numeric digits_pandas (Str ''abc'') = NaN"
  by (simp_all add: to_numeric_def digits_pandas_def digits_numeric_def digit_val_def)

lemma median_10_20: "median [Num 10, Num 20] = Num 15"
  by (simp add: median_def numbers_of_def)

lemma risk_example_stage:
  "risk_score_stage digits_pandas risk_example =
     Inr \<lparr>columns = [''location_region'', ''risk_score''],
          rows = [[(''location_region'', Str ''Asia''), (''risk_score'', Num 10)],
                  [(''location_region'', Str ''Asia''), (''risk_score'', Num 20)],
                  [(''location_region'', Str ''Asia''), (''risk_score'', NaN)]]\<rparr>"
  by (simp add: risk_score_stage_def risk_example_def has_column_def mask_sum_def
      risk_score_missing_def isin_def get_cell_def map_column_def set_cell_def to_numeric_digits)

lemma amount_example_stage:
  "amount_stage digits_pandas amount_example =
     Inr \<lparr>columns = [''location_region'', ''amount''],
          rows = [[(''location_region'', Str ''Asia''), (''amount'', Num 10)],
                  [(''location_region'', Str ''Asia''), (''amount'', Num 20)],
                  [(''location_region'', Str ''Asia''), (''amount'', Num 15)]]\<rparr>"
  by (simp add: amount_stage_def amount_example_def has_column_def mask_sum_def
      isin_def isna_def get_cell_def map_column_def set_cell_def to_numeric_digits
      impute_by_region_def groupby_median_def group_keys_def column_values_def region_rows_def
      select_rows_def fill_region_def fill_global_def loc_assign_def median_def numbers_of_def Let_def)

lemma rename_risk_example: "rename_column ''risk_score'' ''amount'' risk_example = amount_example"
  by (simp add: rename_column_def risk_example_def amount_example_def)

lemma range_example_issues: "range_issues digits_pandas range_example = [(''amount'', Count 1)]"
  by (simp add: range_issues_def numeric_checks_def range_check_def has_column_def
      range_example_def to_numeric_series_def column_values_def get_cell_def out_of_range_def
      to_numeric_digits)

lemma short_address_cleaning:
  "enhanced_data_cleaning digits_pandas short_address_example =
     Inr \<lparr>columns = [''sending_address'', ''receiving_address''], rows = []\<rparr>"
  by (simp add: enhanced_data_cleaning_def short_address_example_def address_stage_def str_accessor_def is_str_def
      has_column_def mask_sum_def address_mask_def str_len_def str_startswith_def get_cell_def
      select_rows_def ip_stage_def risk_score_stage_def amount_stage_def timestamp_stage_def
      region_stage_def drop_duplicates_def Let_def)

lemma consistency_cleaning:
  "enhanced_data_cleaning digits_pandas consistency_example = Inr consistency_cleaned"
  by (simp add: enhanced_data_cleaning_def consistency_example_def consistency_cleaned_def
      address_stage_def str_accessor_def is_str_def ip_stage_def risk_score_stage_def amount_stage_def timestamp_stage_def
      region_stage_def drop_duplicates_def has_column_def mask_sum_def risk_score_missing_def
      isin_def get_cell_def set_cell_def map_column_def to_numeric_digits Let_def)

lemma empty_table_body:
  "and_then (read_csv empty_table_files ''data/df_fraud_credit.csv'') (pipeline_body digits_pandas)
     = Inl ZeroDivisionError"
  by (simp add: read_csv_def empty_table_files_def and_then_def pipeline_body_def
      enhanced_data_cleaning_def address_stage_def str_accessor_def is_str_def has_column_def mask_sum_def
      select_rows_def ip_stage_def risk_score_stage_def amount_stage_def timestamp_stage_def
      region_stage_def drop_duplicates_def map_column_def isna_def Let_def)

lemma to_datetime_100: "to_datetime digits_pandas (Num 100) = Ts 100000000000"
  by (simp add: to_datetime_def digits_pandas_def seconds_instant_def)

lemma sales_cleaning:
  "enhanced_data_cleaning digits_pandas sales_example = Inr sales_cleaned"
  by (simp add: enhanced_data_cleaning_def sales_example_def sales_cleaned_def
      address_stage_def str_accessor_def is_str_def address_mask_def str_len_def str_startswith_def
      ip_stage_def risk_score_stage_def amount_stage_def timestamp_stage_def
      region_stage_def drop_duplicates_def has_column_def mask_sum_def isna_def
      get_cell_def set_cell_def map_column_def to_datetime_100 Let_def)

lemma sales_report:
  "tabela2 sales_cleaned =
     Some \<lparr>columns = [''receiving_address'', ''amount'', ''timestamp''],
           rows = [[(''receiving_address'', Str ''0x2222222222222222222222222222222222222222''),
                    (''amount'', Num 70), (''timestamp'', NaN)]]\<rparr>"
  by (simp add: tabela2_def sales_cleaned_def has_column_def sales_df_def latest_sales_def
      timestamp_key_def get_cell_def project_def report_columns_def)

section \<open>Stage 1: the address filter\<close>




section \<open>Stage 2: ip_prefix\<close>

text \<open>
  C3, as the code has it. In a table that has the ip_prefix column, stage 2 replaces
  every ip_prefix cell by its string conversion, and by the text \<^verbatim>\<open>INVALID_IP\<close> when
  that string is exactly one of \<^verbatim>\<open>0.0\<close>, \<^verbatim>\<open>0\<close>, \<^verbatim>\<open>nan\<close>, \<^verbatim>\<open>NaN\<close>, \<^verbatim>\<open>None\<close>,
  \<^verbatim>\<open>none\<close>; the comparison is case-sensitive. No row is dropped or added and the columns
  stay.
\<close>

theorem ip_stage_rewrites_exact:
  assumes "has_column t ''ip_prefix''"
  shows "rows (ip_stage P t) =
           map (\<lambda>r. set_cell ''ip_prefix''
                      (if astype_str P (get_cell r ''ip_prefix'')
                            \<in> set [''0.0'', ''0'', ''nan'', ''NaN'', ''None'', ''none'']
                       then Str ''INVALID_IP''
                       else Str (astype_str P (get_cell r ''ip_prefix''))) r) (rows t)
         \<and> length (rows (ip_stage P t)) = length (rows t)
         \<and> columns (ip_stage P t) = columns t"
proof -
  define t1 where "t1 = map_column ''ip_prefix'' (\<lambda>c. Str (astype_str P c)) t"
  have stage: "ip_stage P t =
                 (if mask_sum invalid_ips t1 > 0
                  then loc_assign invalid_ips ''ip_prefix'' (Str ''INVALID_IP'') t1 else t1)"
    unfolding ip_stage_def t1_def Let_def using assms by simp
  have rows1: "rows t1 =
                 map (\<lambda>r. set_cell ''ip_prefix'' (Str (astype_str P (get_cell r ''ip_prefix''))) r) (rows t)"
    unfolding t1_def by (rule rows_map_column)
  have "rows (ip_stage P t) =
          map (\<lambda>r. if invalid_ips r then set_cell ''ip_prefix'' (Str ''INVALID_IP'') r else r) (rows t1)"
    unfolding stage by (rule rows_guarded_loc_assign)
  also have "\<dots> =
          map (\<lambda>r. set_cell ''ip_prefix''
                      (if astype_str P (get_cell r ''ip_prefix'')
                            \<in> set [''0.0'', ''0'', ''nan'', ''NaN'', ''None'', ''none'']
                       then Str ''INVALID_IP''
                       else Str (astype_str P (get_cell r ''ip_prefix''))) r) (rows t)"
    unfolding rows1 map_map comp_def invalid_ips_converted set_set_cell
    by (rule map_cong [OF refl]) (simp only: if_distrib [of "\<lambda>v. set_cell ''ip_prefix'' v _"] split: if_splits)
  finally have main: "rows (ip_stage P t) =
          map (\<lambda>r. set_cell ''ip_prefix''
                      (if astype_str P (get_cell r ''ip_prefix'')
                            \<in> set [''0.0'', ''0'', ''nan'', ''NaN'', ''None'', ''none'']
                       then Str ''INVALID_IP''
                       else Str (astype_str P (get_cell r ''ip_prefix''))) r) (rows t)" .
  have len: "length (rows (ip_stage P t)) = length (rows t)"
    unfolding main by (rule length_map)
  have cols: "columns (ip_stage P t) = columns t"
    unfolding stage t1_def by (simp add: columns_loc_assign columns_map_column)
  from main len cols show ?thesis by blast
qed

theorem ip_stage_rewrites_exact_witness:
  "has_column ip_example ''ip_prefix'' \<and>
   rows (ip_stage digits_pandas ip_example) =
     [[(''ip_prefix'', Str ''NONE'')], [(''ip_prefix'', Str ''INVALID_IP'')],
      [(''ip_prefix'', Str ''INVALID_IP'')], [(''ip_prefix'', Str ''192.168'')]]"
proof -
  have c: "has_column ip_example ''ip_prefix''"
    by (simp add: has_column_def ip_example_def)
  have rewritten:
    "map (\<lambda>r. set_cell ''ip_prefix''
                (if astype_str digits_pandas (get_cell r ''ip_prefix'')
                      \<in> set [''0.0'', ''0'', ''nan'', ''NaN'', ''None'', ''none'']
                 then Str ''INVALID_IP''
                 else Str (astype_str digits_pandas (get_cell r ''ip_prefix''))) r)
       (rows ip_example) =
     [[(''ip_prefix'', Str ''NONE'')], [(''ip_prefix'', Str ''INVALID_IP'')],
      [(''ip_prefix'', Str ''INVALID_IP'')], [(''ip_prefix'', Str ''192.168'')]]"
    by (simp add: ip_example_def get_cell_def set_cell_def astype_str_def)
  have "rows (ip_stage digits_pandas ip_example) =
     [[(''ip_prefix'', Str ''NONE'')], [(''ip_prefix'', Str ''INVALID_IP'')],
      [(''ip_prefix'', Str ''INVALID_IP'')], [(''ip_prefix'', Str ''192.168'')]]"
    unfolding conjunct1 [OF ip_stage_rewrites_exact [OF c, of digits_pandas]] by (rule rewritten)
  with c show ?thesis by simp
qed

text \<open>
  The claim as stated fails: \<^verbatim>\<open>NONE\<close> equals the sentinel \<^verbatim>\<open>none\<close> when case is
  ignored, and stage 2 leaves it as it is.
\<close>

theorem ip_stage_case_counterexample:
  "str_lower ''NONE'' = ''none'' \<and>
   rows (ip_stage digits_pandas ip_upper_example) = [[(''ip_prefix'', Str ''NONE'')]] \<and>
   rows (ip_stage digits_pandas ip_upper_example) \<noteq> [[(''ip_prefix'', Str ''INVALID_IP'')]]"
  by (simp add: str_lower_def lower_char_def ip_upper_example_def ip_stage_def has_column_def
      map_column_def mask_sum_def invalid_ips_def isin_def get_cell_def set_cell_def
      astype_str_def loc_assign_def Let_def)

section \<open>Stage 3: risk_score\<close>

text \<open>
  C1, at an input where the code does not do what the claim says. The three rows of
  \<open>risk_example\<close> are of one region and hold the risk_score texts \<^verbatim>\<open>10\<close>,
  \<^verbatim>\<open>20\<close> and \<^verbatim>\<open>abc\<close>. The third does not convert, the median of the region's
  other values is 15, and stage 3 leaves the third value missing: the imputation runs
  only when the column held one of the texts \<^verbatim>\<open>none\<close>, \<^verbatim>\<open>None\<close>, \<^verbatim>\<open>NULL\<close>,
  \<^verbatim>\<open>null\<close> or the empty text before the conversion (line 176).
\<close>

theorem risk_score_stage_leaves_unparsed_missing:
  "to_numeric digits_pandas (Str ''abc'') = NaN \<and>
   median [Num 10, Num 20] = Num 15 \<and>
   risk_score_stage digits_pandas risk_example =
     Inr \<lparr>columns = [''location_region'', ''risk_score''],
          rows = [[(''location_region'', Str ''Asia''), (''risk_score'', Num 10)],
                  [(''location_region'', Str ''Asia''), (''risk_score'', Num 20)],
                  [(''location_region'', Str ''Asia''), (''risk_score'', NaN)]]\<rparr>"
  using to_numeric_digits(6) median_10_20 risk_example_stage by (intro conjI)

section \<open>Stage 4: amount\<close>

text \<open>
  C2, at an input where the two stages differ. On the same three rows with the column
  named amount, stage 4 fills the third value with the region's median 15, because it
  counts the missing values after the conversion (line 208); stage 3 on the column
  named risk_score leaves it missing. So stage 4 on the renamed table is not the renamed
  result of stage 3.
\<close>

theorem amount_stage_differs_from_risk_score_stage:
  "amount_stage digits_pandas (rename_column ''risk_score'' ''amount'' risk_example) =
     Inr \<lparr>columns = [''location_region'', ''amount''],
          rows = [[(''location_region'', Str ''Asia''), (''amount'', Num 10)],
                  [(''location_region'', Str ''Asia''), (''amount'', Num 20)],
                  [(''location_region'', Str ''Asia''), (''amount'', Num 15)]]\<rparr> \<and>
   amount_stage digits_pandas (rename_column ''risk_score'' ''amount'' risk_example) \<noteq>
     map_sum id (rename_column ''risk_score'' ''amount'')
       (risk_score_stage digits_pandas risk_example)"
  unfolding rename_risk_example risk_example_stage amount_example_stage
  by (simp add: rename_column_def)

section \<open>The quality report: numeric ranges\<close>

text \<open>
  C5, at an input where the code does not do what the claim says. In \<open>range_example\<close>
  the amount \<^verbatim>\<open>abc\<close> and the risk_score \<^verbatim>\<open>abc\<close> do not convert, and the amount
  2000000 is above its bound. The report holds the one range violation and nothing about
  the two values that failed to convert: the conversion coerces them to NaN, a comparison
  with NaN is false, and the handler that would store the conversion error is never
  entered.
\<close>

theorem validate_ignores_conversion_failure:
  "to_numeric digits_pandas (Str ''abc'') = NaN \<and>
   out_of_range_values (validate_data_quality digits_pandas range_example) =
     Some [(''amount'', Count 1)]"
  by (simp add: validate_data_quality_def range_example_issues to_numeric_digits)

section \<open>Cleaning twice\<close>

text \<open>
  C7, at an input where the code does not do what the claim says. The one row of
  \<open>short_address_example\<close> has a sending address of three characters, so cleaning
  returns a table with no rows. Cleaning that table again does not return it: the last
  \<^verbatim>\<open>print\<close> of the function divides by the number of rows it was given, which is 0.
\<close>

theorem cleaning_twice_raises:
  "enhanced_data_cleaning digits_pandas short_address_example =
     Inr \<lparr>columns = [''sending_address'', ''receiving_address''], rows = []\<rparr> \<and>
   enhanced_data_cleaning digits_pandas
     \<lparr>columns = [''sending_address'', ''receiving_address''], rows = []\<rparr> =
     Inl ZeroDivisionError"
  by (simp add: short_address_cleaning)
     (simp add: enhanced_data_cleaning_def address_stage_def str_accessor_def has_column_def mask_sum_def
        select_rows_def ip_stage_def risk_score_stage_def amount_stage_def timestamp_stage_def
        region_stage_def drop_duplicates_def Let_def)

section \<open>The consistency check of risk_score against anomaly\<close>

text \<open>
  C6. For every table that cleaning returns and that has the risk_score and anomaly
  columns, the first consistency check flags exactly the rows with risk_score above 75
  and anomaly \<^verbatim>\<open>low_risk\<close>, or risk_score below 25 and anomaly \<^verbatim>\<open>high_risk\<close>, and
  it counts the check as run; it counts it as passed if and only if no row is flagged.
\<close>

theorem consistency_check_flags:
  assumes "enhanced_data_cleaning P df = Inr t"
    and "has_column t ''risk_score''" and "has_column t ''anomaly''"
  shows "inconsistency t =
           Inr (filter
                  (\<lambda>r. ((\<exists>x. get_cell r ''risk_score'' = Num x \<and> x > 75) \<and>
                           get_cell r ''anomaly'' = Str ''low_risk'') \<or>
                        ((\<exists>x. get_cell r ''risk_score'' = Num x \<and> x < 25) \<and>
                           get_cell r ''anomaly'' = Str ''high_risk''))
                  (rows t))
         \<and> check_risk_anomaly t (checks_passed, total_checks) =
           Inr (if filter
                     (\<lambda>r. ((\<exists>x. get_cell r ''risk_score'' = Num x \<and> x > 75) \<and>
                              get_cell r ''anomaly'' = Str ''low_risk'') \<or>
                           ((\<exists>x. get_cell r ''risk_score'' = Num x \<and> x < 25) \<and>
                              get_cell r ''anomaly'' = Str ''high_risk''))
                     (rows t) = []
                then checks_passed + 1 else checks_passed,
                total_checks + 1)"
proof -
  have cmp: "comparable ''risk_score'' t"
    using assms(1,2) by (rule cleaned_risk_score_comparable)
  have flagged: "inconsistency t =
           Inr (filter
                  (\<lambda>r. ((\<exists>x. get_cell r ''risk_score'' = Num x \<and> x > 75) \<and>
                           get_cell r ''anomaly'' = Str ''low_risk'') \<or>
                        ((\<exists>x. get_cell r ''risk_score'' = Num x \<and> x < 25) \<and>
                           get_cell r ''anomaly'' = Str ''high_risk''))
                  (rows t))"
    unfolding inconsistency_def num_gt_iff num_lt_iff using cmp by simp
  have "check_risk_anomaly t (checks_passed, total_checks) =
          (case inconsistency t of Inl e \<Rightarrow> Inl e
           | Inr flagged \<Rightarrow> Inr (tally (checks_passed, total_checks) (length flagged)))"
    unfolding check_risk_anomaly_def using assms(2,3) by simp
  then have "check_risk_anomaly t (checks_passed, total_checks) =
           Inr (if filter
                     (\<lambda>r. ((\<exists>x. get_cell r ''risk_score'' = Num x \<and> x > 75) \<and>
                              get_cell r ''anomaly'' = Str ''low_risk'') \<or>
                           ((\<exists>x. get_cell r ''risk_score'' = Num x \<and> x < 25) \<and>
                              get_cell r ''anomaly'' = Str ''high_risk''))
                     (rows t) = []
                then checks_passed + 1 else checks_passed,
                total_checks + 1)"
    unfolding flagged sum.case tally_found .
  with flagged show ?thesis by (rule conjI)
qed

theorem consistency_check_flags_witness:
  "enhanced_data_cleaning digits_pandas consistency_example = Inr consistency_cleaned \<and>
   has_column consistency_cleaned ''risk_score'' \<and>
   has_column consistency_cleaned ''anomaly'' \<and>
   inconsistency consistency_cleaned =
     Inr [[(''risk_score'', Num 90), (''anomaly'', Str ''low_risk'')],
          [(''risk_score'', Num 10), (''anomaly'', Str ''high_risk'')]] \<and>
   check_risk_anomaly consistency_cleaned (0, 0) = Inr (0, 1)"
proof -
  have c1: "has_column consistency_cleaned ''risk_score''"
    by (simp add: has_column_def consistency_cleaned_def)
  have c2: "has_column consistency_cleaned ''anomaly''"
    by (simp add: has_column_def consistency_cleaned_def)
  have flagged:
    "filter
       (\<lambda>r. ((\<exists>x. get_cell r ''risk_score'' = Num x \<and> x > 75) \<and>
                get_cell r ''anomaly'' = Str ''low_risk'') \<or>
             ((\<exists>x. get_cell r ''risk_score'' = Num x \<and> x < 25) \<and>
                get_cell r ''anomaly'' = Str ''high_risk''))
       (rows consistency_cleaned) =
     [[(''risk_score'', Num 90), (''anomaly'', Str ''low_risk'')],
      [(''risk_score'', Num 10), (''anomaly'', Str ''high_risk'')]]"
    by (simp add: consistency_cleaned_def get_cell_def)
  note inst = consistency_check_flags [OF consistency_cleaning c1 c2, of 0 0, unfolded flagged]
  from inst have "inconsistency consistency_cleaned =
     Inr [[(''risk_score'', Num 90), (''anomaly'', Str ''low_risk'')],
          [(''risk_score'', Num 10), (''anomaly'', Str ''high_risk'')]]"
    by (rule conjunct1)
  moreover from inst have "check_risk_anomaly consistency_cleaned (0, 0) = Inr (0, 1)"
    by simp
  ultimately show ?thesis
    using consistency_cleaning c1 c2 by simp
qed

section \<open>The pipeline on a failure\<close>

text \<open>
  C8. When the source file does not exist, or when reading it or any later step of the
  pipeline raises, the pipeline returns \<^verbatim>\<open>None\<close> for the cleaned table and for both
  reports, and the save step that follows leaves the file system as it was: no output
  file is written.
\<close>

theorem pipeline_failure_returns_nothing:
  assumes "fs file_path = Absent \<or>
           (\<exists>e. and_then (read_csv fs file_path) (pipeline_body P) = Inl e)"
  shows "run_enhanced_data_pipeline P fs file_path = (None, None, None) \<and>
         run_and_save P fs file_path = fs"
proof -
  from assms obtain e where "and_then (read_csv fs file_path) (pipeline_body P) = Inl e"
  proof
    assume "fs file_path = Absent"
    then have "and_then (read_csv fs file_path) (pipeline_body P) = Inl FileNotFoundError"
      by (simp add: read_csv_absent and_then_def)
    then show ?thesis by (rule that)
  next
    assume "\<exists>e. and_then (read_csv fs file_path) (pipeline_body P) = Inl e"
    then show ?thesis using that by blast
  qed
  then have run: "run_enhanced_data_pipeline P fs file_path = (None, None, None)"
    by (rule run_pipeline_failure)
  then have "run_and_save P fs file_path = fs"
    by (simp add: run_and_save_def save_df_clean_def)
  with run show ?thesis by (rule conjI)
qed

theorem pipeline_failure_returns_nothing_witness:
  "no_files ''data/df_fraud_credit.csv'' = Absent \<and>
   run_enhanced_data_pipeline digits_pandas no_files ''data/df_fraud_credit.csv'' = (None, None, None) \<and>
   run_and_save digits_pandas no_files ''data/df_fraud_credit.csv'' = no_files \<and>
   and_then (read_csv empty_table_files ''data/df_fraud_credit.csv'') (pipeline_body digits_pandas)
     = Inl ZeroDivisionError \<and>
   run_enhanced_data_pipeline digits_pandas empty_table_files ''data/df_fraud_credit.csv'' = (None, None, None) \<and>
   run_and_save digits_pandas empty_table_files ''data/df_fraud_credit.csv'' = empty_table_files"
proof -
  have a: "no_files ''data/df_fraud_credit.csv'' = Absent"
    by (simp add: no_files_def)
  then have h1: "no_files ''data/df_fraud_credit.csv'' = Absent \<or>
      (\<exists>e. and_then (read_csv no_files ''data/df_fraud_credit.csv'') (pipeline_body digits_pandas) = Inl e)"
    by (rule disjI1)
  have h2: "empty_table_files ''data/df_fraud_credit.csv'' = Absent \<or>
      (\<exists>e. and_then (read_csv empty_table_files ''data/df_fraud_credit.csv'') (pipeline_body digits_pandas) = Inl e)"
    using empty_table_body by blast
  from a pipeline_failure_returns_nothing [OF h1] empty_table_body
    pipeline_failure_returns_nothing [OF h2]
  show ?thesis by blast
qed

section \<open>The cleaning function and the table it is given\<close>

text \<open>
  C10. The cleaning function does not change the frame it is given. For a store in which
  \<open>df\<close> refers to a table, after the call \<open>df\<close> refers to the same table, and so does
  every other reference that was in use; this holds whether the call returns or raises.
  When the pure cleaning function returns a table, the call returns a reference other
  than \<open>df\<close> that holds that table: the work was done on a copy.
\<close>

theorem cleaning_leaves_argument:
  assumes "frames s df = Some t" and "df < fresh s"
  shows "frames (snd (enhanced_data_cleaning_st P df s)) df = Some t \<and>
         (\<forall>r. r < fresh s \<longrightarrow> frames (snd (enhanced_data_cleaning_st P df s)) r = frames s r) \<and>
         (\<forall>t'. enhanced_data_cleaning P t = Inr t' \<longrightarrow>
               (\<exists>c. fst (enhanced_data_cleaning_st P df s) = Inr c \<and> c \<noteq> df \<and>
                    frames (snd (enhanced_data_cleaning_st P df s)) c = Some t')) \<and>
         (\<forall>e. enhanced_data_cleaning P t = Inl e \<longrightarrow>
               fst (enhanced_data_cleaning_st P df s) = Inl e)"
proof (intro conjI allI impI)
  show "frames (snd (enhanced_data_cleaning_st P df s)) df = Some t"
    using cleaning_st_frame [OF assms(1) assms(2), of P] assms(1) by simp
next
  fix r assume "r < fresh s"
  with assms(1) show "frames (snd (enhanced_data_cleaning_st P df s)) r = frames s r"
    by (rule cleaning_st_frame)
next
  fix t' assume "enhanced_data_cleaning P t = Inr t'"
  with assms(1) obtain c where
    c: "fst (enhanced_data_cleaning_st P df s) = Inr c" "fresh s \<le> c"
       "frames (snd (enhanced_data_cleaning_st P df s)) c = Some t'"
    using cleaning_st_result by blast
  from c(2) assms(2) have "c \<noteq> df" by simp
  with c(1,3) show "\<exists>c. fst (enhanced_data_cleaning_st P df s) = Inr c \<and> c \<noteq> df \<and>
                    frames (snd (enhanced_data_cleaning_st P df s)) c = Some t'"
    by blast
next
  fix e assume "enhanced_data_cleaning P t = Inl e"
  with assms(1) show "fst (enhanced_data_cleaning_st P df s) = Inl e"
    by (simp add: cleaning_st_error)
qed

theorem cleaning_leaves_argument_witness:
  "frames one_frame_store 0 = Some consistency_example \<and>
   0 < fresh one_frame_store \<and>
   enhanced_data_cleaning digits_pandas consistency_example = Inr consistency_cleaned \<and>
   frames (snd (enhanced_data_cleaning_st digits_pandas 0 one_frame_store)) 0 =
     Some consistency_example \<and>
   (\<exists>c. fst (enhanced_data_cleaning_st digits_pandas 0 one_frame_store) = Inr c \<and> c \<noteq> 0 \<and>
        frames (snd (enhanced_data_cleaning_st digits_pandas 0 one_frame_store)) c =
          Some consistency_cleaned)"
proof -
  have a: "frames one_frame_store 0 = Some consistency_example"
    by (simp add: one_frame_store_def)
  have b: "0 < fresh one_frame_store"
    by (simp add: one_frame_store_def)
  note inst = cleaning_leaves_argument [OF a b, of digits_pandas]
  from inst have kept:
    "frames (snd (enhanced_data_cleaning_st digits_pandas 0 one_frame_store)) 0 =
       Some consistency_example"
    by (rule conjunct1)
  from inst consistency_cleaning have copy:
    "\<exists>c. fst (enhanced_data_cleaning_st digits_pandas 0 one_frame_store) = Inr c \<and> c \<noteq> 0 \<and>
        frames (snd (enhanced_data_cleaning_st digits_pandas 0 one_frame_store)) c =
          Some consistency_cleaned"
    by blast
  from a b consistency_cleaning kept copy show ?thesis by blast
qed

section \<open>The report of the top sale addresses\<close>

text \<open>
  C9, at an input where the code does not do what the claim says. \<open>sales_example\<close>
  holds two sales to one address: one of amount 50 at second 100, one of amount 70 whose
  timestamp is missing. Cleaning keeps both rows and turns the missing timestamp into
  NaT. The report then holds the row of amount 70: \<^verbatim>\<open>sort_values\<close> puts NaT last and
  \<^verbatim>\<open>drop_duplicates(keep='last')\<close> keeps the last row of the address, so the row with
  no timestamp stands for the address, not the row with the largest timestamp.
\<close>

theorem top_sales_keeps_row_without_timestamp:
  "enhanced_data_cleaning digits_pandas sales_example = Inr sales_cleaned \<and>
   tabela2 sales_cleaned =
     Some \<lparr>columns = [''receiving_address'', ''amount'', ''timestamp''],
           rows = [[(''receiving_address'', Str ''0x2222222222222222222222222222222222222222''),
                    (''amount'', Num 70), (''timestamp'', NaN)]]\<rparr>"
  using sales_cleaning sales_report by (rule conjI)

end
